theory Spec2Isabelle
  imports
    Complex_Main
    "HOL-Library.Char_ord"
    "HOL-Library.List_Lexorder"
    "HOL-Library.Multiset"
    "HOL-Library.Product_Lexorder"
begin

section \<open>Python strings\<close>

text \<open>
  A Python \<open>str\<close> is modelled as a \<open>string\<close>: a list of characters whose code points lie
  in the range 0..255 (Latin-1). The character classes below are Python's own classes
  restricted to that range.
\<close>

definition is_space :: "char \<Rightarrow> bool" where
  \<comment> \<open>\<open>str.isspace\<close>, the class stripped by \<open>str.strip()\<close> and matched by \<open>\s\<close>\<close>
  "is_space c =
     (let n = (of_char c :: nat)
      in (9 \<le> n \<and> n \<le> 13) \<or> (28 \<le> n \<and> n \<le> 32) \<or> n = 133 \<or> n = 160)"

definition is_digit :: "char \<Rightarrow> bool" where
  \<comment> \<open>the decimal digits, matched by \<open>\d\<close> and read by \<open>int()\<close>\<close>
  "is_digit c = (let n = (of_char c :: nat) in 48 \<le> n \<and> n \<le> 57)"

definition is_alpha :: "char \<Rightarrow> bool" where
  \<comment> \<open>\<open>str.isalpha\<close> on one character\<close>
  "is_alpha c =
     (let n = (of_char c :: nat)
      in (65 \<le> n \<and> n \<le> 90) \<or> (97 \<le> n \<and> n \<le> 122) \<or> n = 170 \<or> n = 181 \<or> n = 186
         \<or> (192 \<le> n \<and> n \<le> 214) \<or> (216 \<le> n \<and> n \<le> 246) \<or> (248 \<le> n \<and> n \<le> 255))"

definition digit_val :: "char \<Rightarrow> int" where
  "digit_val c = int (of_char c) - 48"

definition py_strip :: "string \<Rightarrow> string" where
  \<comment> \<open>\<open>s.strip()\<close>\<close>
  "py_strip s = rev (dropWhile is_space (rev (dropWhile is_space s)))"

definition upper_chr :: "char \<Rightarrow> string" where
  \<comment> \<open>\<open>c.upper()\<close>. The sharp s becomes two letters. The capitals of the micro sign
      (181) and of y with diaeresis (255) lie beyond code point 255; these two characters
      are kept as they are, and neither they nor their capitals are matched by any
      pattern of the program.\<close>
  "upper_chr c =
     (let n = (of_char c :: nat)
      in if (97 \<le> n \<and> n \<le> 122) \<or> (224 \<le> n \<and> n \<le> 254 \<and> n \<noteq> 247) then [char_of (n - 32)]
         else if n = 223 then ''SS''
         else [c])"

definition py_upper :: "string \<Rightarrow> string" where
  \<comment> \<open>\<open>s.upper()\<close>\<close>
  "py_upper s = concat (map upper_chr s)"

definition startswith :: "string \<Rightarrow> string \<Rightarrow> bool" where
  \<comment> \<open>\<open>s.startswith(p)\<close>\<close>
  "startswith s p = (take (length p) s = p)"

fun digits_val :: "int \<Rightarrow> string \<Rightarrow> int" where
  \<comment> \<open>the value of a run of decimal digits, most significant first\<close>
  "digits_val acc [] = acc"
| "digits_val acc (c # cs) = digits_val (10 * acc + digit_val c) cs"

fun int_digits :: "int \<Rightarrow> string \<Rightarrow> int option" where
  \<comment> \<open>the rest of a decimal literal after a digit: digits, each optionally preceded by one
      underscore\<close>
  "int_digits acc [] = Some acc"
| "int_digits acc [c] = (if is_digit c then Some (10 * acc + digit_val c) else None)"
| "int_digits acc (c # d # ds) =
     (if is_digit c then int_digits (10 * acc + digit_val c) (d # ds)
      else if c = CHR ''_'' \<and> is_digit d then int_digits (10 * acc + digit_val d) ds
      else None)"

definition int_literal :: "string \<Rightarrow> int option" where
  "int_literal s =
     (case s of [] \<Rightarrow> None
      | c # cs \<Rightarrow> if is_digit c then int_digits (digit_val c) cs else None)"

definition is_int_space :: "char \<Rightarrow> bool" where
  \<comment> \<open>the whitespace that \<open>int()\<close> skips around a literal: that of \<open>str.strip()\<close> without
      the four separators 28..31\<close>
  "is_int_space c =
     (let n = (of_char c :: nat) in (9 \<le> n \<and> n \<le> 13) \<or> n = 32 \<or> n = 133 \<or> n = 160)"

definition py_int :: "string \<Rightarrow> int option" where
  \<comment> \<open>\<open>int(s)\<close> for a string: surrounding whitespace, an optional sign, a decimal literal.
      \<open>None\<close> stands for the \<open>ValueError\<close>.\<close>
  "py_int s =
     (case rev (dropWhile is_int_space (rev (dropWhile is_int_space s))) of [] \<Rightarrow> None
      | c # cs \<Rightarrow>
          if c = CHR ''-'' then map_option uminus (int_literal cs)
          else if c = CHR ''+'' then int_literal cs
          else int_literal (c # cs))"

section \<open>Primetime classifier (scrape\_nfl\_scores.py)\<close>

text \<open>
  \<open>parse_time\<close> matches \<open>(\d{1,2}):(\d{2})\s*(AM|PM)\<close> at the start of the stripped,
  upper-cased text. The hour group is greedy; when two digits are followed by something
  other than a colon, the one-digit alternative fails as well, since it needs the colon
  where the second digit is. \<open>match_time\<close> returns the three groups.
\<close>

fun match_hour :: "string \<Rightarrow> (string \<times> string) option" where
  "match_hour (a # b # r) =
     (if is_digit a \<and> is_digit b then Some ([a, b], r)
      else if is_digit a then Some ([a], b # r)
      else None)"
| "match_hour [a] = (if is_digit a then Some ([a], []) else None)"
| "match_hour [] = None"

fun match_minute :: "string \<Rightarrow> (string \<times> string) option" where
  "match_minute (k # a # b # r) =
     (if k = CHR '':'' \<and> is_digit a \<and> is_digit b then Some ([a, b], r) else None)"
| "match_minute _ = None"

definition match_ampm :: "string \<Rightarrow> string option" where
  "match_ampm r =
     (let t = dropWhile is_space r
      in if startswith t ''AM'' then Some ''AM''
         else if startswith t ''PM'' then Some ''PM''
         else None)"

definition match_time :: "string \<Rightarrow> (string \<times> string \<times> string) option" where
  "match_time s =
     (case match_hour s of None \<Rightarrow> None
      | Some (h, r) \<Rightarrow>
          (case match_minute r of None \<Rightarrow> None
           | Some (m, r') \<Rightarrow>
               (case match_ampm r' of None \<Rightarrow> None
                | Some ap \<Rightarrow> Some (h, m, ap))))"

definition parse_time :: "string \<Rightarrow> (int \<times> int) option" where
  \<comment> \<open>\<open>None\<close> is the pair \<open>(None, None)\<close> of the source\<close>
  "parse_time time_str =
     (if time_str = [] then None
      else
        (case match_time (py_upper (py_strip time_str)) of None \<Rightarrow> None
         | Some (g1, g2, ampm) \<Rightarrow>
             (let hour = digits_val 0 g1; minute = digits_val 0 g2
              in if ampm = ''PM'' \<and> hour \<noteq> 12 then Some (hour + 12, minute)
                 else if ampm = ''AM'' \<and> hour = 12 then Some (0, minute)
                 else Some (hour, minute))))"

definition hour_ge_19 :: "(int \<times> int) option \<Rightarrow> bool" where
  \<comment> \<open>\<open>hour is not None and hour >= 19\<close>\<close>
  "hour_ge_19 hm = (case hm of None \<Rightarrow> False | Some (hour, minute) \<Rightarrow> hour \<ge> 19)"

definition detect_primetime :: "string \<Rightarrow> string \<Rightarrow> int \<Rightarrow> string" where
  "detect_primetime day0 time_str season =
     (if day0 = [] \<or> time_str = [] then ''''
      else
        (let day = py_strip day0; hm = parse_time time_str
         in if day = ''Mon'' \<and> season \<ge> 1970 then
              (if hour_ge_19 hm then ''MNF'' else ''MNF'')
            else if day = ''Thu'' then
              (if season \<ge> 2006 \<and> hour_ge_19 hm then ''TNF''
               else if season \<ge> 2006 then ''TNF''
               else '''')
            else if day = ''Sun'' then
              (if hour_ge_19 hm then (if season \<ge> 1987 then ''SNF'' else '''') else '''')
            else if day = ''Sat'' then
              (if hour_ge_19 hm then ''Saturday Primetime'' else '''')
            else ''''))"

section \<open>Table extractor (scrape\_nfl\_scores.py)\<close>

text \<open>
  The HTML parser is a collaborator: a table row arrives as the cells that \<open>row.find\<close>
  returns. A cell that is absent is \<open>None\<close>; a cell that is present carries the text that
  \<open>get_text(strip=True)\<close> gives for it (a present cell is truthy whatever it contains).
  The date cell also carries its \<open>csk\<close> attribute, when it has one.
\<close>

record date_cell =
  csk :: "string option"
  text_date :: string

record table_row =
  th_scope_col :: bool
  week_el :: "string option"
  day_el :: "string option"
  date_el :: "date_cell option"
  time_el :: "string option"
  winner_el :: "string option"
  location_el :: "string option"
  loser_el :: "string option"
  pts_win_el :: "string option"
  pts_lose_el :: "string option"

record game =
  Season :: int
  Week :: string
  Day :: string
  Date :: string
  Time_ET :: string
  Home_Team :: string
  Away_Team :: string
  Home_Score :: int
  Away_Score :: int
  Score_Difference :: int
  Winner :: string
  Primetime_Slot :: string

definition get_text :: "string option \<Rightarrow> string" where
  \<comment> \<open>\<open>el.get_text(strip=True) if el else ""\<close>\<close>
  "get_text el = (case el of None \<Rightarrow> '''' | Some t \<Rightarrow> t)"

definition match_iso_date :: "string \<Rightarrow> bool" where
  \<comment> \<open>\<open>re.match(r'\d{4}-\d{2}-\d{2}', s)\<close> finds a match\<close>
  "match_iso_date s =
     (length s \<ge> 10 \<and> list_all is_digit (take 4 s) \<and> s ! 4 = CHR ''-''
      \<and> list_all is_digit (take 2 (drop 5 s)) \<and> s ! 7 = CHR ''-''
      \<and> list_all is_digit (take 2 (drop 8 s)))"

definition resolve_date :: "date_cell option \<Rightarrow> string" where
  "resolve_date el =
     (case el of None \<Rightarrow> ''''
      | Some c \<Rightarrow>
          (let k = (case csk c of None \<Rightarrow> '''' | Some v \<Rightarrow> v)
           in if k \<noteq> [] \<and> \<not> startswith k ''zz'' \<and> match_iso_date k then k
              else text_date c))"

definition parse_pts :: "string option \<Rightarrow> int" where
  \<comment> \<open>\<open>int(el.get_text(strip=True)) if el else 0\<close>, and 0 on \<open>ValueError\<close>\<close>
  "parse_pts el =
     (case el of None \<Rightarrow> 0
      | Some t \<Rightarrow> (case py_int t of None \<Rightarrow> 0 | Some n \<Rightarrow> n))"

definition scrape_row :: "int \<Rightarrow> table_row \<Rightarrow> game option" where
  \<comment> \<open>the body of the row loop of \<open>scrape_season\<close>; \<open>None\<close> is \<open>continue\<close>\<close>
  "scrape_row year row =
     (if th_scope_col row then None
      else if winner_el row = None \<or> loser_el row = None then None
      else
        (let week = get_text (week_el row);
             day = get_text (day_el row);
             game_time = get_text (time_el row);
             winner = get_text (winner_el row);
             loser = get_text (loser_el row);
             location = get_text (location_el row);
             date = resolve_date (date_el row);
             pts_win = parse_pts (pts_win_el row);
             pts_lose = parse_pts (pts_lose_el row)
         in if winner = [] \<or> startswith winner ''Week'' \<or> \<not> list_ex is_alpha winner then None
            else
              (let home_team = (if location = ''@'' then loser else winner);
                   away_team = (if location = ''@'' then winner else loser);
                   home_score = (if location = ''@'' then pts_lose else pts_win);
                   away_score = (if location = ''@'' then pts_win else pts_lose);
                   game_winner = (if pts_win = pts_lose then ''Tie'' else winner);
                   score_diff = \<bar>pts_win - pts_lose\<bar>;
                   primetime = detect_primetime day game_time year
               in Some \<lparr>Season = year, Week = week, Day = day, Date = date,
                        Time_ET = game_time, Home_Team = home_team, Away_Team = away_team,
                        Home_Score = home_score, Away_Score = away_score,
                        Score_Difference = score_diff, Winner = game_winner,
                        Primetime_Slot = primetime\<rparr>)))"

section \<open>Fetch orchestrator (scrape\_nfl\_scores.py)\<close>

text \<open>
  One call of \<open>subprocess.run\<close> either returns the standard output of curl or raises (a
  timeout or any other exception). The network is a function from the attempt index to
  that outcome. What the fetcher does to the world is kept as a list of effects, in
  order: each curl call with its attempt index, each sleep with its duration in seconds.
\<close>

datatype curl_result = Stdout string | Raised

datatype effect = Curl nat | Sleep rat

definition MAX_RETRIES :: nat where
  "MAX_RETRIES = 3"

definition REQUEST_DELAY :: rat where
  "REQUEST_DELAY = 7 / 2"

definition newline :: char where
  "newline = CHR 0x0A"

definition rsplit_newline :: "string \<Rightarrow> string list" where
  \<comment> \<open>\<open>output.rsplit("\n", 1)\<close>\<close>
  "rsplit_newline output =
     (if newline \<in> set output
      then [rev (tl (dropWhile (\<lambda>c. c \<noteq> newline) (rev output))),
            rev (takeWhile (\<lambda>c. c \<noteq> newline) (rev output))]
      else [output])"

definition split_status :: "string \<Rightarrow> string \<times> string" where
  \<comment> \<open>the pair \<open>(html, status_code)\<close>\<close>
  "split_status output =
     (case rsplit_newline output of
        [a, b] \<Rightarrow> (a, py_strip b)
      | _ \<Rightarrow> (output, ''000''))"

definition after :: "effect list \<Rightarrow> 'a \<times> effect list \<Rightarrow> 'a \<times> effect list" where
  "after es p = (fst p, es @ snd p)"

fun fetch_attempts :: "(nat \<Rightarrow> curl_result) \<Rightarrow> nat list \<Rightarrow> string option \<times> effect list" where
  \<comment> \<open>the loop \<open>for attempt in range(retries)\<close> over the attempts still to make\<close>
  "fetch_attempts run [] = (None, [])"
| "fetch_attempts run (attempt # rest) =
     (case run attempt of
        Raised \<Rightarrow> after [Curl attempt, Sleep 5] (fetch_attempts run rest)
      | Stdout output \<Rightarrow>
          (let html = fst (split_status output); status_code = snd (split_status output)
           in if status_code = ''200'' \<and> html \<noteq> [] then (Some html, [Curl attempt])
              else if status_code = ''429'' then
                after [Curl attempt, Sleep (of_nat ((attempt + 1) * 15))]
                  (fetch_attempts run rest)
              else after [Curl attempt, Sleep 5] (fetch_attempts run rest)))"

definition fetch_page :: "(nat \<Rightarrow> curl_result) \<Rightarrow> nat \<Rightarrow> string option \<times> effect list" where
  "fetch_page run retries = fetch_attempts run [0..<retries]"

definition scrape_season ::
  "(nat \<Rightarrow> curl_result) \<Rightarrow> (string \<Rightarrow> table_row list option) \<Rightarrow> int \<Rightarrow> game list \<times> effect list" where
  \<comment> \<open>\<open>parse\<close> is the HTML parser: the rows of the table body, or \<open>None\<close> when the page
      has no table or the table no body\<close>
  "scrape_season run parse year =
     (let fetched = fetch_page run MAX_RETRIES
      in case fst fetched of
           None \<Rightarrow> ([], snd fetched)
         | Some html \<Rightarrow>
             if html = [] then ([], snd fetched)
             else
               (case parse html of
                  None \<Rightarrow> ([], snd fetched)
                | Some trs \<Rightarrow> (List.map_filter (scrape_row year) trs, snd fetched)))"

record run_state =
  all_games :: "game list"
  failed_seasons :: "int list"
  effects :: "effect list"

definition season_step ::
  "(int \<Rightarrow> nat \<Rightarrow> curl_result) \<Rightarrow> (string \<Rightarrow> table_row list option) \<Rightarrow> int \<Rightarrow> int
     \<Rightarrow> run_state \<Rightarrow> run_state" where
  \<comment> \<open>the body of the season loop of \<open>main\<close>; \<open>net year\<close> answers the attempts on that
      year's page\<close>
  "season_step net parse end_year year st =
     (let scraped = scrape_season (net year) parse year;
          games = fst scraped;
          st1 = (if games \<noteq> [] then st\<lparr>all_games := all_games st @ games\<rparr>
                 else st\<lparr>failed_seasons := failed_seasons st @ [year]\<rparr>);
          delay = (if year < end_year then [Sleep REQUEST_DELAY] else [])
      in st1\<lparr>effects := effects st1 @ snd scraped @ delay\<rparr>)"

fun seasons_loop ::
  "(int \<Rightarrow> nat \<Rightarrow> curl_result) \<Rightarrow> (string \<Rightarrow> table_row list option) \<Rightarrow> int \<Rightarrow> int list
     \<Rightarrow> run_state \<Rightarrow> run_state" where
  \<comment> \<open>the season loop of \<open>main\<close> over the years still to scrape\<close>
  "seasons_loop net parse end_year [] st = st"
| "seasons_loop net parse end_year (year # years) st =
     seasons_loop net parse end_year years (season_step net parse end_year year st)"

definition scrape_all ::
  "(int \<Rightarrow> nat \<Rightarrow> curl_result) \<Rightarrow> (string \<Rightarrow> table_row list option) \<Rightarrow> int \<Rightarrow> int \<Rightarrow> run_state" where
  \<comment> \<open>\<open>main\<close> up to the summary: \<open>for year in range(start_year, end_year + 1)\<close>\<close>
  "scrape_all net parse start_year end_year =
     seasons_loop net parse end_year [start_year..end_year]
       \<lparr>all_games = [], failed_seasons = [], effects = []\<rparr>"

text \<open>
  The outcome of one attempt, as \<open>fetch_page\<close> reads it, and the observations on the list
  of effects. \<open>backoff n r\<close> is the wait that the retry rule prescribes after the outcome
  \<open>r\<close> of the attempt numbered \<open>n\<close>, counting from 1.
\<close>

definition succeeded :: "curl_result \<Rightarrow> bool" where
  \<comment> \<open>status 200 with a non-empty body\<close>
  "succeeded r =
     (case r of Raised \<Rightarrow> False
      | Stdout output \<Rightarrow> snd (split_status output) = ''200'' \<and> fst (split_status output) \<noteq> [])"

definition rate_limited :: "curl_result \<Rightarrow> bool" where
  \<comment> \<open>status 429\<close>
  "rate_limited r =
     (case r of Raised \<Rightarrow> False | Stdout output \<Rightarrow> snd (split_status output) = ''429'')"

definition body :: "curl_result \<Rightarrow> string" where
  "body r = (case r of Raised \<Rightarrow> [] | Stdout output \<Rightarrow> fst (split_status output))"

definition backoff :: "nat \<Rightarrow> curl_result \<Rightarrow> rat" where
  "backoff n r = (if rate_limited r then 15 * of_nat n else 5)"

definition failed_attempt :: "(nat \<Rightarrow> curl_result) \<Rightarrow> nat \<Rightarrow> effect list" where
  \<comment> \<open>the effects of the attempt with index \<open>n\<close> (from 0) when it fails\<close>
  "failed_attempt run n = [Curl n, Sleep (backoff (n + 1) (run n))]"

fun curl_calls :: "effect list \<Rightarrow> nat list" where
  "curl_calls [] = []"
| "curl_calls (Curl n # es) = n # curl_calls es"
| "curl_calls (Sleep d # es) = curl_calls es"

fun sleeps :: "effect list \<Rightarrow> rat list" where
  "sleeps [] = []"
| "sleeps (Curl n # es) = sleeps es"
| "sleeps (Sleep d # es) = d # sleeps es"

section \<open>Betting reconciler (add\_spreads.py)\<close>

text \<open>
  A worksheet cell holds an integer, a float, a string, or nothing (\<open>None\<close>). A worksheet
  row is a map from the 1-based column number to the value of the cell; the worksheet is
  its header row and the rows from row 2 to \<open>ws.max_row\<close>.

  The floats in the cells and in the lookup are finite, and each is given as the rational
  number it denotes. The text that \<open>str\<close> gives for a float is a parameter,
  \<open>float_str\<close>.
\<close>

datatype val = IntV int | FloatV rat | StrV string

type_synonym row = "nat \<rightharpoonup> val"


record betting =
  spread :: "rat option"
  ou :: "rat option"

type_synonym lookup = "(string \<times> string) \<rightharpoonup> betting"

definition COL_DATE :: nat where "COL_DATE = 3"
definition COL_HOME :: nat where "COL_HOME = 5"
definition COL_AWAY :: nat where "COL_AWAY = 6"
definition COL_HOME_SCORE :: nat where "COL_HOME_SCORE = 7"
definition COL_AWAY_SCORE :: nat where "COL_AWAY_SCORE = 8"

definition NEW_COL_SPREAD :: nat where "NEW_COL_SPREAD = 13"
definition NEW_COL_OU :: nat where "NEW_COL_OU = 14"
definition NEW_COL_SPREAD_RESULT :: nat where "NEW_COL_SPREAD_RESULT = 15"
definition NEW_COL_OU_RESULT :: nat where "NEW_COL_OU_RESULT = 16"


fun nat_str :: "nat \<Rightarrow> string" where
  "nat_str n =
     (if n < 10 then [char_of (48 + n)]
      else nat_str (n div 10) @ [char_of (48 + n mod 10)])"

definition int_str :: "int \<Rightarrow> string" where
  \<comment> \<open>\<open>str(i)\<close> for an integer\<close>
  "int_str i = (if i < 0 then CHR ''-'' # nat_str (nat (- i)) else nat_str (nat i))"

fun py_str :: "(rat \<Rightarrow> string) \<Rightarrow> val \<Rightarrow> string" where
  \<comment> \<open>\<open>str(v)\<close>\<close>
  "py_str float_str (IntV i) = int_str i"
| "py_str float_str (FloatV q) = float_str q"
| "py_str float_str (StrV s) = s"

fun int_of_val :: "val \<Rightarrow> int option" where
  \<comment> \<open>\<open>int(v)\<close>; a float is truncated towards zero; \<open>None\<close> stands for the \<open>ValueError\<close>\<close>
  "int_of_val (IntV i) = Some i"
| "int_of_val (FloatV q) = Some (if q < 0 then - \<lfloor>- q\<rfloor> else \<lfloor>q\<rfloor>)"
| "int_of_val (StrV s) = py_int s"

definition to_int :: "val option \<Rightarrow> int option" where
  \<comment> \<open>\<open>int(x) if x is not None else None\<close>, and \<open>None\<close> on \<open>ValueError\<close> or \<open>TypeError\<close>\<close>
  "to_int x = (case x of None \<Rightarrow> None | Some v \<Rightarrow> int_of_val v)"

text \<open>
  A Python float is an IEEE 754 double: a finite value, an infinity or NaN. A finite
  double is given as the rational number it denotes (the sign of a zero plays no part in
  what follows). \<open>round_double x\<close> is the double nearest to the rational \<open>x\<close>, ties going to
  the even significand: 53 significant bits, the least exponent -1022 (below it the
  spacing stays \<open>2 ^ -1074\<close>), and an infinity from \<open>2 ^ 1024 - 2 ^ 970\<close> on.
\<close>

datatype pyfloat = Finite rat | PInf | NInf | NaN

datatype py_error = OverflowError

function bit_length :: "int \<Rightarrow> int" where
  \<comment> \<open>the number of binary digits of a positive integer\<close>
  "bit_length n = (if n \<le> 0 then 0 else 1 + bit_length (n div 2))"
  by pat_completeness auto
termination
  by (relation "measure nat") auto

declare bit_length.simps [simp del]

definition pow2 :: "int \<Rightarrow> rat" where
  "pow2 e = (if e \<ge> 0 then 2 ^ nat e else 1 / 2 ^ nat (- e))"

definition exponent :: "rat \<Rightarrow> int" where
  \<comment> \<open>for \<open>a > 0\<close>, the \<open>e\<close> with \<open>2 ^ e \<le> a < 2 ^ (e + 1)\<close>\<close>
  "exponent a =
     (if a \<ge> 1 then bit_length \<lfloor>a\<rfloor> - 1 else - bit_length (\<lceil>1 / a\<rceil> - 1))"

definition round_half_even :: "rat \<Rightarrow> int" where
  "round_half_even m =
     (let n = \<lfloor>m\<rfloor>; f = m - of_int n
      in if f < 1 / 2 then n else if f > 1 / 2 then n + 1
         else if even n then n else n + 1)"

definition round_double :: "rat \<Rightarrow> pyfloat" where
  "round_double x =
     (if x = 0 then Finite 0
      else
        (let a = \<bar>x\<bar>;
             p = max (exponent a) (- 1022) - 52;
             y = of_int (round_half_even (a / pow2 p)) * pow2 p
         in if y \<ge> pow2 1024 then (if x < 0 then NInf else PInf)
            else Finite (if x < 0 then - y else y)))"

definition float_of_int :: "int \<Rightarrow> py_error + pyfloat" where
  \<comment> \<open>the conversion of an integer operand of a float operation: the nearest double,
      and \<open>OverflowError\<close> when the integer is too large for one\<close>
  "float_of_int i =
     (case round_double (of_int i) of Finite x \<Rightarrow> Inr (Finite x) | _ \<Rightarrow> Inl OverflowError)"

fun float_add :: "pyfloat \<Rightarrow> pyfloat \<Rightarrow> pyfloat" where
  \<comment> \<open>\<open>x + y\<close> on floats\<close>
  "float_add (Finite x) (Finite y) = round_double (x + y)"
| "float_add NaN y = NaN"
| "float_add x NaN = NaN"
| "float_add PInf NInf = NaN"
| "float_add NInf PInf = NaN"
| "float_add PInf y = PInf"
| "float_add NInf y = NInf"
| "float_add x PInf = PInf"
| "float_add x NInf = NInf"

fun float_gt_int :: "pyfloat \<Rightarrow> int \<Rightarrow> bool" where
  \<comment> \<open>\<open>x > i\<close> for a float and an integer: Python compares the two values exactly, and
      every comparison with NaN is false\<close>
  "float_gt_int (Finite x) i = (x > of_int i)"
| "float_gt_int PInf i = True"
| "float_gt_int NInf i = False"
| "float_gt_int NaN i = False"

fun float_lt_int :: "pyfloat \<Rightarrow> int \<Rightarrow> bool" where
  \<comment> \<open>\<open>x < i\<close> for a float and an integer\<close>
  "float_lt_int (Finite x) i = (x < of_int i)"
| "float_lt_int PInf i = False"
| "float_lt_int NInf i = True"
| "float_lt_int NaN i = False"

definition compute_spread_result ::
  "int option \<Rightarrow> int option \<Rightarrow> pyfloat option \<Rightarrow> py_error + string" where
  \<comment> \<open>\<open>home_score + spread\<close> converts the score to a float and adds two floats; the
      \<open>OverflowError\<close> of the conversion is not among the exceptions caught\<close>
  "compute_spread_result home_score away_score spread_line =
     (case (spread_line, home_score, away_score) of
        (Some s, Some h, Some a) \<Rightarrow>
          (case float_of_int h of
             Inl e \<Rightarrow> Inl e
           | Inr fh \<Rightarrow>
               (let adjusted = float_add fh s
                in Inr (if float_gt_int adjusted a then ''Covered''
                        else if float_lt_int adjusted a then ''Lost''
                        else ''Push'')))
      | _ \<Rightarrow> Inr '''')"

definition compute_ou_result :: "int option \<Rightarrow> int option \<Rightarrow> pyfloat option \<Rightarrow> string" where
  \<comment> \<open>\<open>total\<close> is an integer; \<open>total > ou\<close> and \<open>total < ou\<close> compare it with the float
      exactly\<close>
  "compute_ou_result home_score away_score ou_line =
     (case (ou_line, home_score, away_score) of
        (Some t, Some h, Some a) \<Rightarrow>
          (let total = h + a
           in if float_lt_int t total then ''Over''
              else if float_gt_int t total then ''Under''
              else ''Push'')
      | _ \<Rightarrow> '''')"

definition returned :: "py_error + string \<Rightarrow> string" where
  \<comment> \<open>the text that a call returned. In \<open>merge_into_excel\<close> nothing catches the
      \<open>OverflowError\<close> of \<open>compute_spread_result\<close>: it ends the run before the row is
      written and before the workbook is saved. The row loop below is that of the runs
      that go on, and a call that raised stands there with the empty text.\<close>
  "returned x = (case x of Inl e \<Rightarrow> '''' | Inr t \<Rightarrow> t)"

text \<open>
  \<open>ws.cell(row=r, column=c, value=v)\<close> is the worksheet method of the spreadsheet library:
  it fetches the cell (creating an empty one when there is none) and assigns \<open>v\<close> to it
  only when \<open>v\<close> is not \<open>None\<close>. Called with \<open>value=None\<close> it leaves the value of the cell
  as it was. Fonts, fills, borders and alignments are not part of the model.
\<close>

definition ws_cell :: "row \<Rightarrow> nat \<Rightarrow> val option \<Rightarrow> row" where
  "ws_cell r column v = (case v of None \<Rightarrow> r | Some x \<Rightarrow> r(column \<mapsto> x))"

definition merge_row :: "(rat \<Rightarrow> string) \<Rightarrow> lookup \<Rightarrow> row \<Rightarrow> row \<times> nat \<times> nat" where
  \<comment> \<open>the body of the row loop of \<open>merge_into_excel\<close>: the row after it, and what it adds
      to \<open>matched\<close> and to \<open>total\<close>\<close>
  "merge_row float_str lk r =
     (let date_val = r (COL_DATE + 1);
          home_val = r (COL_HOME + 1);
          home_score = r (COL_HOME_SCORE + 1);
          away_score = r (COL_AWAY_SCORE + 1)
      in case date_val of None \<Rightarrow> (r, 0, 0)
         | Some dv \<Rightarrow>
             (case home_val of None \<Rightarrow> (r, 0, 0)
              | Some hv \<Rightarrow>
                  (let date_str = take 10 (py_strip (py_str float_str dv));
                       home_str = py_strip (py_str float_str hv)
                   in case lk (date_str, home_str) of
                        Some b \<Rightarrow>
                          (let hs = to_int home_score;
                               as = to_int away_score;
                               spread_result =
                                 returned (compute_spread_result hs as
                                   (map_option Finite (spread b)));
                               ou_result = compute_ou_result hs as (map_option Finite (ou b));
                               r1 = ws_cell r NEW_COL_SPREAD (map_option FloatV (spread b));
                               r2 = ws_cell r1 NEW_COL_OU (map_option FloatV (ou b));
                               r3 = ws_cell r2 NEW_COL_SPREAD_RESULT (Some (StrV spread_result));
                               r4 = ws_cell r3 NEW_COL_OU_RESULT (Some (StrV ou_result))
                           in (r4, 1, 1))
                      | None \<Rightarrow>
                          (fold (\<lambda>col r'. ws_cell r' col None)
                             [NEW_COL_SPREAD..<NEW_COL_OU_RESULT + 1] r, 0, 1))))"

fun merge_rows :: "(rat \<Rightarrow> string) \<Rightarrow> lookup \<Rightarrow> row list \<Rightarrow> row list \<times> nat \<times> nat" where
  \<comment> \<open>the loop \<open>for row_idx in range(2, ws.max_row + 1)\<close>\<close>
  "merge_rows float_str lk [] = ([], 0, 0)"
| "merge_rows float_str lk (r # rs) =
     (let one = merge_row float_str lk r; more = merge_rows float_str lk rs
      in (fst one # fst more,
          fst (snd one) + fst (snd more),
          snd (snd one) + snd (snd more)))"



definition betting_fields :: "row \<Rightarrow> val option list" where
  \<comment> \<open>the four betting fields of a row: spread, over/under, spread result, O/U result\<close>
  "betting_fields r =
     [r NEW_COL_SPREAD, r NEW_COL_OU, r NEW_COL_SPREAD_RESULT, r NEW_COL_OU_RESULT]"


definition eligible :: "row \<Rightarrow> bool" where
  \<comment> \<open>the row has a Date cell and a Home Team cell\<close>
  "eligible r = (r (COL_DATE + 1) \<noteq> None \<and> r (COL_HOME + 1) \<noteq> None)"

section \<open>Web asset (generate\_data.py)\<close>

record js_game =
  g_s :: int
  g_w :: string
  g_d :: string
  g_dt :: string
  g_tm :: string
  g_h :: string
  g_a :: string
  g_hs :: int
  g_as :: int
  g_pt :: string
  g_sp :: "rat option"
  g_ou :: "rat option"
  g_sr :: "string option"
  g_our :: "string option"

definition game_key :: "js_game \<Rightarrow> int \<times> string \<times> string \<times> string" where
  \<comment> \<open>\<open>(g["s"], g["dt"], g["h"], g["a"])\<close>\<close>
  "game_key g = (g_s g, g_dt g, g_h g, g_a g)"

fun dedup :: "(int \<times> string \<times> string \<times> string) set \<Rightarrow> js_game list \<Rightarrow> js_game list" where
  \<comment> \<open>the deduplication loop, from the set \<open>seen\<close> so far: the games appended to
      \<open>unique_games\<close>\<close>
  "dedup seen [] = []"
| "dedup seen (g # gs) =
     (if game_key g \<notin> seen then g # dedup (insert (game_key g) seen) gs
      else dedup seen gs)"

definition sort_games :: "js_game list \<Rightarrow> js_game list" where
  \<comment> \<open>\<open>unique_games.sort(key=lambda g: (g["s"], g["dt"]))\<close>, a stable sort; tuples compare
      lexicographically, strings by code point\<close>
  "sort_games gs = sort_key (\<lambda>g. (g_s g, g_dt g)) gs"

definition unique_games :: "js_game list \<Rightarrow> js_game list" where
  \<comment> \<open>the sequence that \<open>main\<close> serializes, from \<open>all_games\<close>\<close>
  "unique_games games = sort_games (dedup {} games)"

section \<open>Concrete inputs\<close>

definition away_win_row :: table_row where
  \<comment> \<open>the winner played away: the location marker is set\<close>
  "away_win_row =
     \<lparr>th_scope_col = False, week_el = Some ''1'', day_el = Some ''Sun'',
      date_el = Some \<lparr>csk = Some ''2020-09-13'', text_date = ''September 13''\<rparr>,
      time_el = Some ''8:20PM'', winner_el = Some ''Los Angeles Rams'',
      location_el = Some ''@'', loser_el = Some ''Dallas Cowboys'',
      pts_win_el = Some ''20'', pts_lose_el = Some ''17''\<rparr>"

definition home_win_row :: table_row where
  \<comment> \<open>the winner played at home: the location cell is empty\<close>
  "home_win_row =
     \<lparr>th_scope_col = False, week_el = Some ''1'', day_el = Some ''Sun'',
      date_el = Some \<lparr>csk = Some ''2020-09-13'', text_date = ''September 13''\<rparr>,
      time_el = Some ''1:00PM'', winner_el = Some ''Green Bay Packers'',
      location_el = Some '''', loser_el = Some ''Minnesota Vikings'',
      pts_win_el = Some ''43'', pts_lose_el = Some ''34''\<rparr>"

definition tie_row :: table_row where
  \<comment> \<open>equal points\<close>
  "tie_row =
     \<lparr>th_scope_col = False, week_el = Some ''3'', day_el = Some ''Sun'',
      date_el = Some \<lparr>csk = Some ''2020-09-27'', text_date = ''September 27''\<rparr>,
      time_el = Some ''1:00PM'', winner_el = Some ''Cincinnati Bengals'',
      location_el = Some ''@'', loser_el = Some ''Philadelphia Eagles'',
      pts_win_el = Some ''23'', pts_lose_el = Some ''23''\<rparr>"

definition tie_named_row :: table_row where
  \<comment> \<open>a winner column that reads \<open>Tie\<close>, with unequal points\<close>
  "tie_named_row =
     \<lparr>th_scope_col = False, week_el = Some ''1'', day_el = Some ''Sun'',
      date_el = None, time_el = Some ''1:00PM'', winner_el = Some ''Tie'',
      location_el = None, loser_el = Some ''Dallas Cowboys'',
      pts_win_el = Some ''10'', pts_lose_el = Some ''3''\<rparr>"

definition rate_limiting_net :: "nat \<Rightarrow> curl_result" where
  \<comment> \<open>every attempt is answered with status 429\<close>
  "rate_limiting_net n = Stdout (''Too Many Requests'' @ [newline] @ ''429'')"

definition flaky_net :: "nat \<Rightarrow> curl_result" where
  \<comment> \<open>a timeout, then status 503, then the page\<close>
  "flaky_net n =
     (if n = 0 then Raised
      else if n = 1 then Stdout (''Service Unavailable'' @ [newline] @ ''503'')
      else Stdout (''<html></html>'' @ [newline] @ ''200''))"

definition no_table :: "string \<Rightarrow> table_row list option" where
  \<comment> \<open>a parser that finds no table\<close>
  "no_table html = None"

definition lines_2020 :: lookup where
  \<comment> \<open>a betting lookup with one game\<close>
  "lines_2020 =
     Map.empty((''2020-09-13'', ''Dallas Cowboys'') \<mapsto> \<lparr>spread = Some (- 3), ou = Some (87 / 2)\<rparr>)"

definition cowboys_row :: row where
  \<comment> \<open>a game that \<open>lines_2020\<close> has, with no betting fields yet\<close>
  "cowboys_row =
     Map.empty(1 \<mapsto> IntV 2020, 2 \<mapsto> StrV ''1'', 3 \<mapsto> StrV ''Sun'', 4 \<mapsto> StrV ''2020-09-13'',
       5 \<mapsto> StrV ''8:20PM'', 6 \<mapsto> StrV ''Dallas Cowboys'', 7 \<mapsto> StrV ''Los Angeles Rams'',
       8 \<mapsto> IntV 17, 9 \<mapsto> IntV 20, 10 \<mapsto> IntV 3, 11 \<mapsto> StrV ''Los Angeles Rams'',
       12 \<mapsto> StrV ''SNF'')"

definition stale_row :: row where
  \<comment> \<open>a game that \<open>lines_2020\<close> does not have, with betting fields left by an earlier merge\<close>
  "stale_row =
     Map.empty(1 \<mapsto> IntV 2020, 2 \<mapsto> StrV ''1'', 3 \<mapsto> StrV ''Sun'', 4 \<mapsto> StrV ''2020-09-13'',
       5 \<mapsto> StrV ''1:00PM'', 6 \<mapsto> StrV ''Green Bay Packers'', 7 \<mapsto> StrV ''Minnesota Vikings'',
       8 \<mapsto> IntV 43, 9 \<mapsto> IntV 34, 10 \<mapsto> IntV 9, 11 \<mapsto> StrV ''Green Bay Packers'',
       12 \<mapsto> StrV '''', 13 \<mapsto> FloatV (- 3), 14 \<mapsto> FloatV (87 / 2), 15 \<mapsto> StrV ''Covered'',
       16 \<mapsto> StrV ''Over'')"

definition undated_row :: row where
  \<comment> \<open>a row with an empty Date cell and betting fields left by an earlier merge\<close>
  "undated_row =
     Map.empty(1 \<mapsto> IntV 2020, 6 \<mapsto> StrV ''Dallas Cowboys'', 8 \<mapsto> IntV 17, 9 \<mapsto> IntV 20,
       13 \<mapsto> FloatV (- 3), 14 \<mapsto> FloatV (87 / 2), 15 \<mapsto> StrV ''Lost'', 16 \<mapsto> StrV ''Under'')"


definition opener :: js_game where
  "opener =
     \<lparr>g_s = 2020, g_w = ''1'', g_d = ''Sun'', g_dt = ''2020-09-13'', g_tm = ''8:20PM'',
      g_h = ''Dallas Cowboys'', g_a = ''Los Angeles Rams'', g_hs = 17, g_as = 20,
      g_pt = ''SNF'', g_sp = Some (- 3), g_ou = Some (87 / 2), g_sr = Some ''Lost'',
      g_our = Some ''Under''\<rparr>"

definition opener_again :: js_game where
  \<comment> \<open>the same game read from a second file, without betting fields\<close>
  "opener_again = opener\<lparr>g_sp := None, g_ou := None, g_sr := None, g_our := None\<rparr>"

definition older_game :: js_game where
  "older_game =
     \<lparr>g_s = 2019, g_w = ''17'', g_d = ''Sun'', g_dt = ''2019-12-29'', g_tm = ''1:00PM'',
      g_h = ''Green Bay Packers'', g_a = ''Minnesota Vikings'', g_hs = 43, g_as = 34,
      g_pt = '''', g_sp = None, g_ou = None, g_sr = None, g_our = None\<rparr>"

section \<open>Properties of the primetime classifier\<close>

lemma py_strip_Nil: "py_strip [] = []"
  by (simp add: py_strip_def)

lemma parse_time_Nil: "parse_time [] = None"
  by (simp add: parse_time_def)

lemma parse_time_Some_nonempty: "parse_time t = Some hm \<Longrightarrow> t \<noteq> []"
  by (auto simp: parse_time_def)

lemma detect_primetime_Mon:
  assumes "py_strip day = ''Mon''" and "time_str \<noteq> []" and "season \<ge> 1970"
  shows "detect_primetime day time_str season = ''MNF''"
proof -
  from assms(1) have "day \<noteq> []" by (auto simp: py_strip_Nil)
  with assms show ?thesis by (simp add: detect_primetime_def)
qed

lemma detect_primetime_parsed:
  assumes "parse_time t = Some (hr, mi)"
  shows "detect_primetime day t season =
     (if day = [] then ''''
      else if py_strip day = ''Mon'' \<and> season \<ge> 1970 then ''MNF''
      else if py_strip day = ''Thu'' then (if season \<ge> 2006 then ''TNF'' else '''')
      else if py_strip day = ''Sun'' then (if hr \<ge> 19 \<and> season \<ge> 1987 then ''SNF'' else '''')
      else if py_strip day = ''Sat'' then (if hr \<ge> 19 then ''Saturday Primetime'' else '''')
      else '''')"
  using assms parse_time_Some_nonempty [OF assms]
  by (simp add: detect_primetime_def hour_ge_19_def Let_def)

text \<open>
  Claim C2, as amended. The classifier returns the empty label at once when the kickoff
  time is the empty string, whatever the day and the season, before any rule is tried.
  For every kickoff time that is not empty, whether it parses or not, a Monday (the day
  after \<open>strip()\<close> is \<open>Mon\<close>) of a season from 1970 on is labelled \<open>MNF\<close>. The empty time
  parses to \<open>(None, None)\<close>.
\<close>

theorem monday_rule:
  assumes "py_strip day = ''Mon''" and "time_str \<noteq> []" and "season \<ge> 1970"
  shows "detect_primetime day time_str season = ''MNF''
    \<and> parse_time [] = None
    \<and> detect_primetime any_day [] any_season = ''''"
proof -
  have "detect_primetime any_day [] any_season = ''''"
    by (simp add: detect_primetime_def)
  with assms show ?thesis
    by (simp add: detect_primetime_Mon parse_time_Nil)
qed

theorem monday_rule_witness:
  "detect_primetime ''Mon'' ''1:00PM'' 1975 = ''MNF''
   \<and> parse_time ''kickoff'' = None \<and> detect_primetime ''Mon'' ''kickoff'' 1970 = ''MNF''
   \<and> detect_primetime ''Mon'' [] 1975 = ''''"
proof -
  have s: "py_strip ''Mon'' = ''Mon''" by code_simp
  have u: "parse_time ''kickoff'' = None" by code_simp
  from monday_rule [OF s, of "''1:00PM''" 1975 "''Mon''" 1975]
    monday_rule [OF s, of "''kickoff''" 1970 "''Mon''" 1975] u
  show ?thesis by simp
qed

text \<open>
  Claim C2 as stated fails: a Monday game of 1975 with an absent (empty) kickoff time
  gets the empty label, not \<open>MNF\<close>.
\<close>

theorem monday_rule_counterexample:
  "detect_primetime ''Mon'' [] 1975 = '''' \<and> detect_primetime ''Mon'' [] 1975 \<noteq> ''MNF''"
  by (simp add: detect_primetime_def)

text \<open>
  Claim C7. For a kickoff time that parses to the hour \<open>hr\<close>, with the day read after
  \<open>strip()\<close>: a Thursday is \<open>TNF\<close> from 2006 on whatever the hour and unlabelled before; a
  Sunday is \<open>SNF\<close> when the season is 1987 or later and the hour is at least 19, and
  unlabelled otherwise; a Saturday is \<open>Saturday Primetime\<close> when the hour is at least 19
  and unlabelled otherwise; a Monday before 1970 and every other day are unlabelled.
\<close>

theorem remaining_rules:
  assumes "parse_time t = Some (hr, mi)"
  shows "(py_strip day = ''Thu'' \<and> season \<ge> 2006 \<longrightarrow> detect_primetime day t season = ''TNF'')
    \<and> (py_strip day = ''Thu'' \<and> season < 2006 \<longrightarrow> detect_primetime day t season = '''')
    \<and> (py_strip day = ''Sun'' \<and> season \<ge> 1987 \<and> hr \<ge> 19 \<longrightarrow> detect_primetime day t season = ''SNF'')
    \<and> (py_strip day = ''Sun'' \<and> \<not> (season \<ge> 1987 \<and> hr \<ge> 19) \<longrightarrow> detect_primetime day t season = '''')
    \<and> (py_strip day = ''Sat'' \<and> hr \<ge> 19 \<longrightarrow> detect_primetime day t season = ''Saturday Primetime'')
    \<and> (py_strip day = ''Sat'' \<and> hr < 19 \<longrightarrow> detect_primetime day t season = '''')
    \<and> (py_strip day = ''Mon'' \<and> season < 1970 \<longrightarrow> detect_primetime day t season = '''')
    \<and> (py_strip day \<noteq> ''Mon'' \<and> py_strip day \<noteq> ''Thu'' \<and> py_strip day \<noteq> ''Sun''
          \<and> py_strip day \<noteq> ''Sat'' \<longrightarrow> detect_primetime day t season = '''')"
proof -
  have ne: "py_strip day = s \<Longrightarrow> s \<noteq> [] \<Longrightarrow> day \<noteq> []" for s
    by (auto simp: py_strip_Nil)
  show ?thesis
    unfolding detect_primetime_parsed [OF assms] using ne by auto
qed

theorem remaining_rules_witness:
  "detect_primetime ''Thu'' ''8:20PM'' 2010 = ''TNF''
   \<and> detect_primetime ''Thu'' ''1:00PM'' 2000 = ''''
   \<and> detect_primetime ''Sun'' ''8:20PM'' 2020 = ''SNF''
   \<and> detect_primetime ''Sun'' ''1:00PM'' 2020 = ''''
   \<and> detect_primetime ''Sat'' ''8:00PM'' 2022 = ''Saturday Primetime''
   \<and> detect_primetime ''Sat'' ''1:00PM'' 2022 = ''''
   \<and> detect_primetime ''Mon'' ''9:00PM'' 1969 = ''''
   \<and> detect_primetime ''Fri'' ''8:00PM'' 2022 = ''''"
proof -
  have p1: "parse_time ''8:20PM'' = Some (20, 20)" by code_simp
  have p2: "parse_time ''1:00PM'' = Some (13, 0)" by code_simp
  have p3: "parse_time ''8:00PM'' = Some (20, 0)" by code_simp
  have p4: "parse_time ''9:00PM'' = Some (21, 0)" by code_simp
  have s: "py_strip ''Thu'' = ''Thu''" "py_strip ''Sun'' = ''Sun''" "py_strip ''Sat'' = ''Sat''"
    "py_strip ''Mon'' = ''Mon''" "py_strip ''Fri'' = ''Fri''"
    by code_simp+
  from remaining_rules [OF p1, of "''Thu''" 2010] remaining_rules [OF p2, of "''Thu''" 2000]
    remaining_rules [OF p1, of "''Sun''" 2020] remaining_rules [OF p2, of "''Sun''" 2020]
    remaining_rules [OF p3, of "''Sat''" 2022] remaining_rules [OF p2, of "''Sat''" 2022]
    remaining_rules [OF p4, of "''Mon''" 1969] remaining_rules [OF p3, of "''Fri''" 2022]
  show ?thesis by (simp add: s)
qed

section \<open>Properties of the table extractor\<close>

lemma scrape_away_win_row:
  "scrape_row 2020 away_win_row =
     Some \<lparr>Season = 2020, Week = ''1'', Day = ''Sun'', Date = ''2020-09-13'',
           Time_ET = ''8:20PM'', Home_Team = ''Dallas Cowboys'',
           Away_Team = ''Los Angeles Rams'', Home_Score = 17, Away_Score = 20,
           Score_Difference = 3, Winner = ''Los Angeles Rams'', Primetime_Slot = ''SNF''\<rparr>"
  by code_simp

lemma scrape_home_win_row:
  "scrape_row 2020 home_win_row =
     Some \<lparr>Season = 2020, Week = ''1'', Day = ''Sun'', Date = ''2020-09-13'',
           Time_ET = ''1:00PM'', Home_Team = ''Green Bay Packers'',
           Away_Team = ''Minnesota Vikings'', Home_Score = 43, Away_Score = 34,
           Score_Difference = 9, Winner = ''Green Bay Packers'', Primetime_Slot = []\<rparr>"
  by code_simp

lemma scrape_tie_row:
  "scrape_row 2020 tie_row =
     Some \<lparr>Season = 2020, Week = ''3'', Day = ''Sun'', Date = ''2020-09-27'',
           Time_ET = ''1:00PM'', Home_Team = ''Philadelphia Eagles'',
           Away_Team = ''Cincinnati Bengals'', Home_Score = 23, Away_Score = 23,
           Score_Difference = 0, Winner = ''Tie'', Primetime_Slot = []\<rparr>"
  by code_simp

text \<open>
  Claim C1. For every accepted row: when the location marker is \<open>@\<close>, the home team is the
  team of the loser column, the away team that of the winner column, the home score the
  loser's points and the away score the winner's points; with any other marker the home
  team and score are the winner column's and the away team and score the loser column's.
\<close>

theorem home_away_resolution:
  assumes "scrape_row year row = Some g"
  shows "(get_text (location_el row) = ''@'' \<longrightarrow>
            Home_Team g = get_text (loser_el row) \<and> Away_Team g = get_text (winner_el row)
            \<and> Home_Score g = parse_pts (pts_lose_el row)
            \<and> Away_Score g = parse_pts (pts_win_el row))
       \<and> (get_text (location_el row) \<noteq> ''@'' \<longrightarrow>
            Home_Team g = get_text (winner_el row) \<and> Away_Team g = get_text (loser_el row)
            \<and> Home_Score g = parse_pts (pts_win_el row)
            \<and> Away_Score g = parse_pts (pts_lose_el row))"
  using assms unfolding scrape_row_def Let_def
  by (auto split: if_splits)

theorem home_away_resolution_witness:
  "scrape_row 2020 away_win_row \<noteq> None
   \<and> map_option Home_Team (scrape_row 2020 away_win_row) = Some ''Dallas Cowboys''
   \<and> map_option Away_Team (scrape_row 2020 away_win_row) = Some ''Los Angeles Rams''
   \<and> map_option Home_Score (scrape_row 2020 away_win_row) = Some 17
   \<and> map_option Away_Score (scrape_row 2020 away_win_row) = Some 20
   \<and> scrape_row 2020 home_win_row \<noteq> None
   \<and> map_option Home_Team (scrape_row 2020 home_win_row) = Some ''Green Bay Packers''
   \<and> map_option Away_Team (scrape_row 2020 home_win_row) = Some ''Minnesota Vikings''
   \<and> map_option Home_Score (scrape_row 2020 home_win_row) = Some 43
   \<and> map_option Away_Score (scrape_row 2020 home_win_row) = Some 34"
  using home_away_resolution [OF scrape_away_win_row]
    home_away_resolution [OF scrape_home_win_row]
  by (simp add: scrape_away_win_row scrape_home_win_row)

text \<open>
  Claim C8, as amended. For every accepted row the score difference is the absolute
  difference of the home and away scores; the winner is \<open>Tie\<close> when the two scores are
  equal, and the text of the winner column, whichever side was at home, when they differ.
  So the winner is \<open>Tie\<close> exactly when the scores are equal, for every row whose winner
  column does not itself read \<open>Tie\<close>.
\<close>

theorem record_invariants:
  assumes "scrape_row year row = Some g"
  shows "Score_Difference g = \<bar>Home_Score g - Away_Score g\<bar>
       \<and> (Home_Score g = Away_Score g \<longrightarrow> Winner g = ''Tie'')
       \<and> (Home_Score g \<noteq> Away_Score g \<longrightarrow> Winner g = get_text (winner_el row))
       \<and> (get_text (winner_el row) \<noteq> ''Tie'' \<longrightarrow>
            (Winner g = ''Tie'') = (Home_Score g = Away_Score g))"
  using assms unfolding scrape_row_def Let_def
  by (auto split: if_splits)

theorem record_invariants_witness:
  "scrape_row 2020 tie_row \<noteq> None
   \<and> map_option Winner (scrape_row 2020 tie_row) = Some ''Tie''
   \<and> map_option Score_Difference (scrape_row 2020 tie_row) = Some 0
   \<and> scrape_row 2020 away_win_row \<noteq> None
   \<and> map_option Winner (scrape_row 2020 away_win_row) = Some ''Los Angeles Rams''
   \<and> map_option Score_Difference (scrape_row 2020 away_win_row) = Some 3"
  using record_invariants [OF scrape_tie_row] record_invariants [OF scrape_away_win_row]
  by (simp add: scrape_tie_row scrape_away_win_row)

text \<open>
  Claim C8 as stated fails: a row whose winner column reads \<open>Tie\<close> and whose points are
  10 and 3 is accepted, and its record has the winner \<open>Tie\<close> with unequal scores.
\<close>

theorem record_invariants_counterexample:
  "scrape_row 2020 tie_named_row \<noteq> None
   \<and> map_option Winner (scrape_row 2020 tie_named_row) = Some ''Tie''
   \<and> map_option Home_Score (scrape_row 2020 tie_named_row) = Some 10
   \<and> map_option Away_Score (scrape_row 2020 tie_named_row) = Some 3"
  by code_simp

section \<open>Properties of the fetch orchestrator\<close>

lemma fetch_attempts_step:
  "fetch_attempts run (n # rest) =
     (if succeeded (run n) then (Some (body (run n)), [Curl n])
      else after (failed_attempt run n) (fetch_attempts run rest))"
  by (cases "run n")
     (auto simp: succeeded_def rate_limited_def body_def backoff_def failed_attempt_def Let_def
        algebra_simps)

lemma fetch_attempts_all_fail:
  "(\<And>n. n \<in> set ns \<Longrightarrow> \<not> succeeded (run n)) \<Longrightarrow>
   fetch_attempts run ns = (None, concat (map (failed_attempt run) ns))"
proof (induction ns)
  case Nil
  show ?case by simp
next
  case (Cons n ns)
  then show ?case
    by (simp only: fetch_attempts_step) (simp add: after_def)
qed

lemma fetch_attempts_first_success:
  "(\<And>n. n \<in> set ns \<Longrightarrow> \<not> succeeded (run n)) \<Longrightarrow> succeeded (run k) \<Longrightarrow>
   fetch_attempts run (ns @ k # rest) =
     (Some (body (run k)), concat (map (failed_attempt run) ns) @ [Curl k])"
proof (induction ns)
  case Nil
  then show ?case by (simp only: append_Nil fetch_attempts_step) simp
next
  case (Cons n ns)
  then show ?case
    by (simp only: append_Cons fetch_attempts_step) (simp add: after_def)
qed

lemma curl_calls_append: "curl_calls (es @ fs) = curl_calls es @ curl_calls fs"
  by (induction es rule: curl_calls.induct) simp_all

lemma curl_calls_fetch_attempts:
  "length (curl_calls (snd (fetch_attempts run ns))) \<le> length ns"
proof (induction ns)
  case Nil
  show ?case by simp
next
  case (Cons n ns)
  then show ?case
    by (simp only: fetch_attempts_step) (simp add: after_def failed_attempt_def)
qed

lemma upt_3: "[0..<3] = [0, 1, 2]"
  by (simp add: upt_rec)

lemma fetch_page_exhausted:
  assumes "\<And>n. n < 3 \<Longrightarrow> \<not> succeeded (run n)"
  shows "fetch_page run MAX_RETRIES =
     (None, [Curl 0, Sleep (backoff 1 (run 0)), Curl 1, Sleep (backoff 2 (run 1)),
             Curl 2, Sleep (backoff 3 (run 2))])"
proof -
  have "fetch_attempts run [0, 1, 2] = (None, concat (map (failed_attempt run) [0, 1, 2]))"
    by (rule fetch_attempts_all_fail) (use assms in auto)
  moreover have "fetch_page run MAX_RETRIES = fetch_attempts run [0, 1, 2]"
    by (simp only: fetch_page_def MAX_RETRIES_def upt_3)
  ultimately show ?thesis
    by (simp add: failed_attempt_def numeral_2_eq_2 numeral_3_eq_3 del: fetch_attempts.simps)
qed

lemma scrape_season_unavailable:
  assumes "fst (fetch_page run MAX_RETRIES) = None"
  shows "scrape_season run parse year = ([], snd (fetch_page run MAX_RETRIES))"
  using assms by (simp add: scrape_season_def Let_def)

lemma failed_seasons_step:
  "set (failed_seasons st) \<subseteq> set (failed_seasons (season_step net parse end_year y st))"
  by (auto simp: season_step_def Let_def)

lemma failed_seasons_kept:
  "set (failed_seasons st) \<subseteq> set (failed_seasons (seasons_loop net parse end_year years st))"
proof (induction years arbitrary: st)
  case Nil
  show ?case by simp
next
  case (Cons y ys)
  have "set (failed_seasons st) \<subseteq> set (failed_seasons (season_step net parse end_year y st))"
    by (rule failed_seasons_step)
  also have "\<dots> \<subseteq> set (failed_seasons
      (seasons_loop net parse end_year ys (season_step net parse end_year y st)))"
    by (rule Cons.IH)
  finally show ?case by simp
qed

lemma season_step_unavailable:
  assumes "fst (fetch_page (net year) MAX_RETRIES) = None"
  shows "season_step net parse end_year year st =
     st\<lparr>failed_seasons := failed_seasons st @ [year],
        effects := effects st @ snd (fetch_page (net year) MAX_RETRIES)
                   @ (if year < end_year then [Sleep REQUEST_DELAY] else [])\<rparr>"
  by (simp add: season_step_def scrape_season_unavailable [OF assms] Let_def)

lemma season_recorded_failed:
  assumes "fst (fetch_page (net year) MAX_RETRIES) = None"
  shows "year \<in> set (failed_seasons (seasons_loop net parse end_year (year # years) st))"
proof -
  have "year \<in> set (failed_seasons (season_step net parse end_year year st))"
    using season_step_unavailable [of net year parse end_year st] assms by simp
  then show ?thesis
    using failed_seasons_kept [of "season_step net parse end_year year st" net parse end_year years]
    by auto
qed

text \<open>
  Claim C5. \<open>fetch_page\<close> calls curl at most three times. When no attempt succeeds it
  returns \<open>None\<close>, raising nothing, after sleeping past each attempt for the time the
  retry rule gives: 15 seconds times the number of the attempt (from 1) after a status
  429, and 5 seconds after any other status, an empty body, a transport error or a
  timeout; three answers with status 429 give the waits 15, 30 and 45. When an attempt
  succeeds it returns that page, having slept by the same rule past the failed attempts
  before it. A season whose fetch returns \<open>None\<close> yields no games; the season loop
  records the year in \<open>failed_seasons\<close> and goes on with the remaining years.
\<close>

theorem fetch_retry_backoff:
  "length (curl_calls (snd (fetch_page run MAX_RETRIES))) \<le> 3
   \<and> ((\<forall>n<3. \<not> succeeded (run n)) \<longrightarrow>
        fetch_page run MAX_RETRIES =
          (None, [Curl 0, Sleep (backoff 1 (run 0)), Curl 1, Sleep (backoff 2 (run 1)),
                  Curl 2, Sleep (backoff 3 (run 2))]))
   \<and> (k < 3 \<and> (\<forall>n<k. \<not> succeeded (run n)) \<and> succeeded (run k) \<longrightarrow>
        fetch_page run MAX_RETRIES =
          (Some (body (run k)), concat (map (failed_attempt run) [0..<k]) @ [Curl k]))
   \<and> (rate_limited r \<longrightarrow> backoff n r = 15 * of_nat n)
   \<and> (\<not> rate_limited r \<longrightarrow> backoff n r = 5)
   \<and> ((\<forall>n<3. rate_limited (run n)) \<longrightarrow>
        fst (fetch_page run MAX_RETRIES) = None
        \<and> sleeps (snd (fetch_page run MAX_RETRIES)) = [15, 30, 45])
   \<and> (fst (fetch_page (net year) MAX_RETRIES) = None \<longrightarrow>
        fst (scrape_season (net year) parse year) = []
        \<and> seasons_loop net parse end_year (year # years) st =
            seasons_loop net parse end_year years
              (st\<lparr>failed_seasons := failed_seasons st @ [year],
                  effects := effects st @ snd (fetch_page (net year) MAX_RETRIES)
                             @ (if year < end_year then [Sleep REQUEST_DELAY] else [])\<rparr>)
        \<and> year \<in> set (failed_seasons (seasons_loop net parse end_year (year # years) st)))"
proof -
  have calls: "length (curl_calls (snd (fetch_page run MAX_RETRIES))) \<le> 3"
    using curl_calls_fetch_attempts [of run "[0..<MAX_RETRIES]"]
    by (simp add: fetch_page_def MAX_RETRIES_def)
  have limited: "fst (fetch_page run MAX_RETRIES) = None
      \<and> sleeps (snd (fetch_page run MAX_RETRIES)) = [15, 30, 45]"
    if "\<forall>n<3. rate_limited (run n)"
  proof -
    have "\<not> succeeded (run n)" if "n < 3" for n
      using \<open>\<forall>n<3. rate_limited (run n)\<close> that
      by (cases "run n") (auto simp: succeeded_def rate_limited_def)
    then have "fetch_page run MAX_RETRIES =
        (None, [Curl 0, Sleep (backoff 1 (run 0)), Curl 1, Sleep (backoff 2 (run 1)),
                Curl 2, Sleep (backoff 3 (run 2))])"
      by (rule fetch_page_exhausted)
    with that show ?thesis by (simp add: backoff_def)
  qed
  have first: "fetch_page run MAX_RETRIES =
      (Some (body (run k)), concat (map (failed_attempt run) [0..<k]) @ [Curl k])"
    if "k < 3" and "\<forall>n<k. \<not> succeeded (run n)" and "succeeded (run k)"
  proof -
    have "[0..<3] = [0..<k] @ k # [Suc k..<3]"
      using \<open>k < 3\<close> by (metis le_add2 le_add_same_cancel2 less_imp_add_positive upt_add_eq_append upt_conv_Cons)
    moreover have "fetch_attempts run ([0..<k] @ k # [Suc k..<3]) =
        (Some (body (run k)), concat (map (failed_attempt run) [0..<k]) @ [Curl k])"
      by (rule fetch_attempts_first_success) (use that in auto)
    ultimately show ?thesis by (simp add: fetch_page_def MAX_RETRIES_def)
  qed
  show ?thesis
    using calls limited first fetch_page_exhausted [of run]
      scrape_season_unavailable [of "net year" parse year]
      season_step_unavailable [of net year parse end_year st]
      season_recorded_failed [of net year parse end_year years st]
    by (simp add: backoff_def)
qed

theorem fetch_retry_backoff_witness:
  "fetch_page rate_limiting_net MAX_RETRIES =
     (None, [Curl 0, Sleep 15, Curl 1, Sleep 30, Curl 2, Sleep 45])
   \<and> fetch_page flaky_net MAX_RETRIES =
     (Some ''<html></html>'', [Curl 0, Sleep 5, Curl 1, Sleep 5, Curl 2])
   \<and> 2020 \<in> set (failed_seasons (scrape_all (\<lambda>year. rate_limiting_net) no_table 2020 2021))"
proof -
  have r: "\<forall>n<3. rate_limited (rate_limiting_net n)"
    by (simp add: rate_limited_def rate_limiting_net_def split_status_def rsplit_newline_def
        newline_def py_strip_def is_space_def)
  have nr: "\<forall>n<3. \<not> succeeded (rate_limiting_net n)"
    by (simp add: succeeded_def rate_limiting_net_def split_status_def rsplit_newline_def
        newline_def py_strip_def is_space_def)
  have f: "\<forall>n<2. \<not> succeeded (flaky_net n)" "succeeded (flaky_net 2)"
    "body (flaky_net 2) = ''<html></html>''" "\<not> rate_limited (flaky_net 0)"
    "\<not> rate_limited (flaky_net 1)"
    by (simp_all add: succeeded_def flaky_net_def split_status_def rsplit_newline_def body_def
        rate_limited_def newline_def py_strip_def is_space_def less_Suc_eq numeral_2_eq_2)
  have b: "backoff n (rate_limiting_net m) = 15 * of_nat n" if "m < 3" for n m
    using fetch_retry_backoff [where r = "rate_limiting_net m" and n = n] r that by blast
  have b': "backoff n (flaky_net m) = 5" if "m < 2" for n m
    using fetch_retry_backoff [where r = "flaky_net m" and n = n] f that
    by (auto simp: less_Suc_eq numeral_2_eq_2)
  have 1: "fetch_page rate_limiting_net MAX_RETRIES =
      (None, [Curl 0, Sleep 15, Curl 1, Sleep 30, Curl 2, Sleep 45])"
    using fetch_retry_backoff [where run = rate_limiting_net] nr by (simp add: b)
  have 2: "fetch_page flaky_net MAX_RETRIES =
      (Some ''<html></html>'', [Curl 0, Sleep 5, Curl 1, Sleep 5, Curl 2])"
    using fetch_retry_backoff [where run = flaky_net and k = 2] f(1,2,3)
    by (simp add: failed_attempt_def upt_rec numeral_2_eq_2 b')
  have 3: "2020 \<in> set (failed_seasons (scrape_all (\<lambda>year. rate_limiting_net) no_table 2020 2021))"
  proof -
    have "fst (fetch_page rate_limiting_net MAX_RETRIES) = None"
      using 1 by simp
    with fetch_retry_backoff
        [where net = "\<lambda>year. rate_limiting_net" and year = 2020 and years = "[2021]"
           and parse = no_table and end_year = 2021
           and st = "\<lparr>all_games = [], failed_seasons = [], effects = []\<rparr>"
           and run = rate_limiting_net and k = 0 and n = 0 and r = Raised]
    have "2020 \<in> set (failed_seasons (seasons_loop (\<lambda>year. rate_limiting_net) no_table 2021
             [2020, 2021] \<lparr>all_games = [], failed_seasons = [], effects = []\<rparr>))"
      by blast
    then show ?thesis
      by (simp add: scrape_all_def upto_rec_numeral del: seasons_loop.simps)
  qed
  from 1 2 3 show ?thesis by simp
qed

section \<open>Properties of the bet outcomes\<close>

lemma bit_length_bounds:
  "0 < n \<Longrightarrow> 1 \<le> bit_length n \<and> 2 ^ nat (bit_length n - 1) \<le> n \<and> n < 2 ^ nat (bit_length n)"
proof (induction n rule: bit_length.induct)
  case (1 n)
  show ?case
  proof (cases "n = 1")
    case True
    have "bit_length 1 = 1"
      by (simp add: bit_length.simps [of 1] bit_length.simps [of 0])
    with True show ?thesis by simp
  next
    case False
    with "1.prems" have pos: "0 < n div 2" by simp
    from "1.prems" have "\<not> n \<le> 0" by simp
    from "1.IH" [OF this pos] have ih:
      "1 \<le> bit_length (n div 2)" "2 ^ nat (bit_length (n div 2) - 1) \<le> n div 2"
      "n div 2 < 2 ^ nat (bit_length (n div 2))"
      by simp_all
    define b where "b = bit_length (n div 2)"
    have bl: "bit_length n = 1 + b"
      using "1.prems" by (simp add: bit_length.simps [of n] b_def)
    have b1: "1 \<le> b" using ih(1) by (simp add: b_def)
    have n1: "nat (1 + b - 1) = Suc (nat (b - 1))" using b1 by simp
    have n2: "nat (1 + b) = Suc (nat b)" using b1 by simp
    have lo: "2 * 2 ^ nat (b - 1) \<le> n"
      using ih(2) unfolding b_def [symmetric] by linarith
    have hi: "n < 2 * 2 ^ nat b"
      using ih(3) unfolding b_def [symmetric] by linarith
    show ?thesis
      unfolding bl n1 n2 using lo hi b1 by simp
  qed
qed

lemma round_half_even_int: "round_half_even (of_int n) = n"
  by (simp add: round_half_even_def)

text \<open>A half-integer below \<open>2 ^ 52\<close> in magnitude is a double: rounding leaves it as it is.\<close>

lemma round_double_half:
  assumes "\<bar>k\<bar> < 2 ^ 53"
  shows "round_double (of_int k / 2) = Finite (of_int k / 2)"
proof (cases "k = 0")
  case True
  then show ?thesis by (simp add: round_double_def)
next
  case False
  define j where "j = \<bar>k\<bar>"
  define a :: rat where "a = of_int j / 2"
  have j: "1 \<le> j" "j < 2 ^ 53" using False assms by (simp_all add: j_def)
  have a: "\<bar>of_int k / 2 :: rat\<bar> = a"
    by (simp add: a_def j_def)
  have apos: "0 < a" using j by (simp add: a_def)
  have key: "of_int (round_half_even (a / pow2 (max (exponent a) (- 1022) - 52)))
      * pow2 (max (exponent a) (- 1022) - 52) = a"
  proof (cases "j = 1")
    case True
    have b1: "bit_length 1 = 1"
      by (simp add: bit_length.simps [of 1] bit_length.simps [of 0])
    have "exponent (1 / 2) = - 1"
      by (simp add: exponent_def b1)
    then have p: "max (exponent a) (- 1022) - 52 = - 53"
      using True by (simp add: a_def)
    have "a / pow2 (- 53) = of_int (2 ^ 52)"
      using True by (simp add: a_def pow2_def)
    then show ?thesis
      unfolding p by (simp only: round_half_even_int) (simp add: pow2_def a_def True)
  next
    case False
    with j have j2: "2 \<le> j" by simp
    define m where "m = j div 2"
    have m: "1 \<le> m" "m < 2 ^ 52" using j2 j by (simp_all add: m_def)
    have fl: "\<lfloor>a\<rfloor> = m"
    proof -
      have "\<lfloor>of_int j / (of_int 2 :: rat)\<rfloor> = j div 2"
        by (rule floor_divide_of_int_eq)
      then show ?thesis by (simp add: a_def m_def)
    qed
    have a1: "1 \<le> a" using j2 by (simp add: a_def)
    define e where "e = bit_length m - 1"
    from bit_length_bounds [of m] m have bb: "0 \<le> e" "2 ^ nat e \<le> m"
      by (simp_all add: e_def)
    have lt: "(2::int) ^ nat e < 2 ^ 52" using bb(2) m(2) by linarith
    have "nat e < 52"
      by (rule power_less_imp_less_exp [of "2::int"]) (simp, rule lt)
    then have e51: "e \<le> 51" by simp
    have ex: "exponent a = e"
      using a1 by (simp add: exponent_def fl e_def)
    have p: "max (exponent a) (- 1022) - 52 = e - 52"
      using bb(1) by (simp add: ex)
    define d where "d = nat (51 - e)"
    have nd: "nat (- (e - 52)) = Suc d" using e51 by (simp add: d_def)
    have "pow2 (e - 52) = 1 / 2 ^ nat (- (e - 52))"
      using e51 by (simp add: pow2_def)
    then have pw: "pow2 (e - 52) = 1 / (2 * 2 ^ d)"
      unfolding nd by simp
    have q: "a / pow2 (e - 52) = of_int (j * 2 ^ d)"
      by (simp add: pw a_def)
    show ?thesis
      unfolding p q by (simp only: round_half_even_int) (simp add: pw a_def)
  qed
  have small: "\<not> a \<ge> pow2 1024"
  proof -
    have "a < 2 ^ 53" using j by (simp add: a_def)
    also have "(2::rat) ^ 53 \<le> 2 ^ 1024" by (rule power_increasing) simp_all
    finally show ?thesis by (simp add: pow2_def)
  qed
  have nz: "(of_int k / 2 :: rat) \<noteq> 0" using False by simp
  show ?thesis
    unfolding round_double_def Let_def a key
    using nz small apos a by (auto simp: abs_if split: if_splits)
qed

lemma float_of_int_exact:
  assumes "\<bar>2 * h\<bar> < 2 ^ 53"
  shows "float_of_int h = Inr (Finite (of_int h))"
  using round_double_half [OF assms] by (simp add: float_of_int_def)

lemma spread_result_exact:
  assumes "\<bar>2 * h\<bar> < 2 ^ 53" and "\<bar>2 * h + j\<bar> < 2 ^ 53"
  shows "compute_spread_result (Some h) (Some a) (Some (Finite (of_int j / 2))) =
     Inr (if of_int h + of_int j / 2 > (of_int a :: rat) then ''Covered''
          else if of_int h + of_int j / 2 < (of_int a :: rat) then ''Lost''
          else ''Push'')"
proof -
  have eq: "(of_int h :: rat) + of_int j / 2 = of_int (2 * h + j) / 2" by simp
  have "round_double (of_int h + of_int j / 2) = Finite (of_int h + of_int j / 2)"
    unfolding eq by (rule round_double_half [OF assms(2)])
  then have "float_add (Finite (of_int h)) (Finite (of_int j / 2)) =
      Finite (of_int h + of_int j / 2)"
    by (simp only: float_add.simps)
  then show ?thesis
    by (simp add: compute_spread_result_def float_of_int_exact [OF assms(1)]
        del: float_add.simps)
qed

lemma spread_result_general:
  assumes "float_of_int h = Inr fh"
  shows "compute_spread_result (Some h) (Some a) (Some s) =
     Inr (if float_gt_int (float_add fh s) a then ''Covered''
          else if float_lt_int (float_add fh s) a then ''Lost''
          else ''Push'')"
  using assms by (simp add: compute_spread_result_def Let_def)

lemma results_of_unknown:
  assumes "line = None \<or> home_score = None \<or> away_score = None"
  shows "compute_spread_result home_score away_score line = Inr ''''
    \<and> compute_ou_result home_score away_score line = ''''"
  using assms
  by (auto simp: compute_spread_result_def compute_ou_result_def split: option.splits)

lemma floor_rat_numeral: "\<lfloor>(numeral a :: rat) / numeral b\<rfloor> = numeral a div numeral b"
  by (metis floor_divide_of_int_eq of_int_numeral)

lemma round_half_even_ge: "\<lfloor>m\<rfloor> \<le> round_half_even m"
  by (simp add: round_half_even_def Let_def)

lemma round_double_overflow:
  assumes "2 ^ 1024 \<le> \<bar>i\<bar>"
  shows "round_double (of_int i) = (if i < 0 then NInf else PInf)"
proof -
  define m where "m = \<bar>i\<bar>"
  define a :: rat where "a = of_int m"
  have m: "2 ^ 1024 \<le> m" using assms by (simp add: m_def)
  have "(0::int) < 2 ^ 1024" by simp
  with m have mpos: "0 < m" by linarith
  have a: "\<bar>of_int i :: rat\<bar> = a" by (simp add: a_def m_def)
  have a1: "1 \<le> a" using mpos by (simp add: a_def)
  define e where "e = bit_length m - 1"
  from bit_length_bounds [OF mpos] have bb: "0 \<le> e" "2 ^ nat e \<le> m" "m < 2 ^ nat (e + 1)"
    by (simp_all add: e_def)
  have "(2::int) ^ 1024 < 2 ^ nat (e + 1)" using m bb(3) by linarith
  then have "1024 < nat (e + 1)"
    by (rule power_less_imp_less_exp [of "2::int", rotated]) simp
  then have e1024: "1024 \<le> e" by simp
  have ex: "exponent a = e"
    using a1 by (simp add: exponent_def a_def e_def)
  have p: "max (exponent a) (- 1022) - 52 = e - 52"
    using bb(1) by (simp add: ex)
  define d where "d = nat (e - 52)"
  have pw: "pow2 (e - 52) = 2 ^ d" using e1024 by (simp add: pow2_def d_def)
  have ne: "nat e = 52 + d" using e1024 by (simp add: d_def)
  have "(2::int) ^ 52 * 2 ^ d \<le> m" using bb(2) by (simp add: ne power_add)
  then have "(of_int (2 ^ 52 * 2 ^ d) :: rat) \<le> of_int m" by (simp only: of_int_le_iff)
  then have "(2::rat) ^ 52 \<le> a / 2 ^ d"
    by (simp add: a_def pos_le_divide_eq)
  then have "\<lfloor>(2::rat) ^ 52\<rfloor> \<le> \<lfloor>a / 2 ^ d\<rfloor>" by (rule floor_mono)
  then have "2 ^ 52 \<le> \<lfloor>a / 2 ^ d\<rfloor>" by simp
  with round_half_even_ge [of "a / 2 ^ d"] have n: "2 ^ 52 \<le> round_half_even (a / 2 ^ d)"
    by linarith
  have "(2::rat) ^ 1024 \<le> 2 ^ nat e"
    by (rule power_increasing) (use e1024 in simp_all)
  also have "\<dots> = of_int (2 ^ 52) * 2 ^ d" by (simp add: ne power_add)
  also have "\<dots> \<le> of_int (round_half_even (a / 2 ^ d)) * 2 ^ d"
    using n by (intro mult_right_mono) (simp_all only: of_int_le_iff zero_le_power zero_le_numeral)
  finally have big: "pow2 1024 \<le> of_int (round_half_even (a / 2 ^ d)) * 2 ^ d"
    by (simp add: pow2_def)
  have nz: "(of_int i :: rat) \<noteq> 0" using mpos by (auto simp: m_def)
  show ?thesis
    unfolding round_double_def Let_def a p pw using nz big by simp
qed

lemma float_of_int_overflow:
  assumes "2 ^ 1024 \<le> \<bar>i\<bar>"
  shows "float_of_int i = Inl OverflowError"
  by (simp add: float_of_int_def round_double_overflow [OF assms])

lemma round_double_tiny_sum: "round_double (1 + 1 / 2 ^ 60) = Finite 1"
proof -
  have e: "exponent \<bar>1 + 1 / 2 ^ 60\<bar> = 0"
    by (simp add: exponent_def bit_length.simps floor_rat_numeral)
  show ?thesis
    unfolding round_double_def Let_def e
    by (simp add: round_half_even_def pow2_def Let_def floor_rat_numeral)
qed

lemma round_double_odd: "round_double (2 ^ 53 + 1) = Finite (2 ^ 53)"
proof -
  have e: "exponent \<bar>2 ^ 53 + 1\<bar> = 53"
    by (simp add: exponent_def bit_length.simps)
  show ?thesis
    unfolding round_double_def Let_def e
    by (simp add: round_half_even_def pow2_def Let_def floor_rat_numeral)
qed

lemma round_double_even: "round_double (2 ^ 53) = Finite (2 ^ 53)"
proof -
  have e: "exponent \<bar>2 ^ 53\<bar> = 53"
    by (simp add: exponent_def bit_length.simps)
  show ?thesis
    unfolding round_double_def Let_def e
    by (simp add: round_half_even_def pow2_def Let_def floor_rat_numeral)
qed

text \<open>
  Claim C3, as amended. With both scores and the line known, the spread result is
  \<open>Covered\<close> when \<open>adjusted > a\<close>, \<open>Lost\<close> when \<open>adjusted < a\<close> and \<open>Push\<close> otherwise, where
  \<open>adjusted\<close> is the float sum of \<open>h\<close> and \<open>s\<close>: \<open>h\<close> converted to the nearest double, the sum
  rounded to the nearest double. A home score too large for a float, as every score of
  magnitude \<open>2 ^ 1024\<close> or more is, makes the call raise \<open>OverflowError\<close>. For a line that is
  a multiple of one half, with \<open>h\<close> and \<open>h + s\<close> below \<open>2 ^ 52\<close> in magnitude, \<open>adjusted\<close> is the
  exact sum: the result is \<open>Covered\<close> when \<open>h + s > a\<close>, \<open>Lost\<close> when \<open>h + s < a\<close> and \<open>Push\<close>
  when \<open>h + s = a\<close>. For every finite total line \<open>t\<close> the over/under result is \<open>Over\<close> when
  \<open>h + a > t\<close>, \<open>Under\<close> when \<open>h + a < t\<close> and \<open>Push\<close> when \<open>h + a = t\<close>; it is \<open>Under\<close> for the
  line \<open>+inf\<close>, \<open>Over\<close> for \<open>-inf\<close> and \<open>Push\<close> for NaN. Each result is the empty string when
  its line or either score is \<open>None\<close>.
\<close>

theorem spread_and_ou_results:
  "(float_of_int h = Inr fh \<longrightarrow>
      compute_spread_result (Some h) (Some a) (Some s) =
        Inr (if float_gt_int (float_add fh s) a then ''Covered''
             else if float_lt_int (float_add fh s) a then ''Lost''
             else ''Push''))
   \<and> (float_of_int h = Inl OverflowError \<or> 2 ^ 1024 \<le> \<bar>h\<bar> \<longrightarrow>
        compute_spread_result (Some h) (Some a) (Some s) = Inl OverflowError)
   \<and> (\<bar>2 * h\<bar> < 2 ^ 53 \<and> \<bar>2 * h + j\<bar> < 2 ^ 53 \<longrightarrow>
        ((of_int h :: rat) + of_int j / 2 > of_int a \<longrightarrow>
           compute_spread_result (Some h) (Some a) (Some (Finite (of_int j / 2))) =
             Inr ''Covered'')
        \<and> ((of_int h :: rat) + of_int j / 2 < of_int a \<longrightarrow>
           compute_spread_result (Some h) (Some a) (Some (Finite (of_int j / 2))) =
             Inr ''Lost'')
        \<and> ((of_int h :: rat) + of_int j / 2 = of_int a \<longrightarrow>
           compute_spread_result (Some h) (Some a) (Some (Finite (of_int j / 2))) =
             Inr ''Push''))
   \<and> (of_int (h + a) > t \<longrightarrow> compute_ou_result (Some h) (Some a) (Some (Finite t)) = ''Over'')
   \<and> (of_int (h + a) < t \<longrightarrow> compute_ou_result (Some h) (Some a) (Some (Finite t)) = ''Under'')
   \<and> (of_int (h + a) = t \<longrightarrow> compute_ou_result (Some h) (Some a) (Some (Finite t)) = ''Push'')
   \<and> compute_ou_result (Some h) (Some a) (Some PInf) = ''Under''
   \<and> compute_ou_result (Some h) (Some a) (Some NInf) = ''Over''
   \<and> compute_ou_result (Some h) (Some a) (Some NaN) = ''Push''
   \<and> (line = None \<or> home_score = None \<or> away_score = None \<longrightarrow>
        compute_spread_result home_score away_score line = Inr ''''
        \<and> compute_ou_result home_score away_score line = '''')"
proof -
  have g: "float_of_int h = Inr fh \<longrightarrow>
      compute_spread_result (Some h) (Some a) (Some s) =
        Inr (if float_gt_int (float_add fh s) a then ''Covered''
             else if float_lt_int (float_add fh s) a then ''Lost''
             else ''Push'')"
    using spread_result_general [of h fh a s] by blast
  have o: "float_of_int h = Inl OverflowError \<or> 2 ^ 1024 \<le> \<bar>h\<bar> \<longrightarrow>
      compute_spread_result (Some h) (Some a) (Some s) = Inl OverflowError"
    using float_of_int_overflow [of h] by (auto simp: compute_spread_result_def)
  have e: "\<bar>2 * h\<bar> < 2 ^ 53 \<and> \<bar>2 * h + j\<bar> < 2 ^ 53 \<longrightarrow>
        ((of_int h :: rat) + of_int j / 2 > of_int a \<longrightarrow>
           compute_spread_result (Some h) (Some a) (Some (Finite (of_int j / 2))) =
             Inr ''Covered'')
        \<and> ((of_int h :: rat) + of_int j / 2 < of_int a \<longrightarrow>
           compute_spread_result (Some h) (Some a) (Some (Finite (of_int j / 2))) =
             Inr ''Lost'')
        \<and> ((of_int h :: rat) + of_int j / 2 = of_int a \<longrightarrow>
           compute_spread_result (Some h) (Some a) (Some (Finite (of_int j / 2))) =
             Inr ''Push'')"
    using spread_result_exact [of h j a] by auto
  have u: "(of_int (h + a) > t \<longrightarrow> compute_ou_result (Some h) (Some a) (Some (Finite t)) = ''Over'')
     \<and> (of_int (h + a) < t \<longrightarrow> compute_ou_result (Some h) (Some a) (Some (Finite t)) = ''Under'')
     \<and> (of_int (h + a) = t \<longrightarrow> compute_ou_result (Some h) (Some a) (Some (Finite t)) = ''Push'')
     \<and> compute_ou_result (Some h) (Some a) (Some PInf) = ''Under''
     \<and> compute_ou_result (Some h) (Some a) (Some NInf) = ''Over''
     \<and> compute_ou_result (Some h) (Some a) (Some NaN) = ''Push''"
    by (auto simp: compute_ou_result_def Let_def)
  from g o e u results_of_unknown [of line home_score away_score] show ?thesis
    by blast
qed

theorem spread_and_ou_results_witness:
  "compute_spread_result (Some 24) (Some 20) (Some (Finite (- 7 / 2))) = Inr ''Covered''
   \<and> compute_spread_result (Some 17) (Some 24) (Some (Finite 3)) = Inr ''Lost''
   \<and> compute_spread_result (Some 20) (Some 23) (Some (Finite 3)) = Inr ''Push''
   \<and> compute_spread_result (Some 1) (Some 1) (Some NaN) = Inr ''Push''
   \<and> compute_spread_result (Some (2 ^ 1024)) (Some 20) (Some (Finite 3)) = Inl OverflowError
   \<and> compute_ou_result (Some 24) (Some 20) (Some (Finite (87 / 2))) = ''Over''
   \<and> compute_ou_result (Some 17) (Some 24) (Some (Finite (87 / 2))) = ''Under''
   \<and> compute_ou_result (Some 20) (Some 23) (Some (Finite 43)) = ''Push''
   \<and> compute_spread_result (Some 24) None (Some (Finite 3)) = Inr ''''
   \<and> compute_ou_result None (Some 20) (Some (Finite 43)) = ''''
   \<and> compute_spread_result (Some 24) (Some 20) None = Inr ''''
   \<and> compute_ou_result (Some 24) (Some 20) None = ''''"
proof -
  have 1: "compute_spread_result (Some 24) (Some 20) (Some (Finite (- 7 / 2))) = Inr ''Covered''
     \<and> compute_ou_result (Some 24) (Some 20) (Some (Finite (87 / 2))) = ''Over''
     \<and> compute_spread_result (Some 24) None (Some (Finite 3)) = Inr ''''"
    using spread_and_ou_results
      [where h = 24 and a = 20 and j = "- 7" and t = "87 / 2" and line = "Some (Finite 3)"
         and home_score = "Some 24" and away_score = None and fh = "Finite 1" and s = NaN]
    by simp
  have 2: "compute_spread_result (Some 17) (Some 24) (Some (Finite 3)) = Inr ''Lost''
     \<and> compute_ou_result (Some 17) (Some 24) (Some (Finite (87 / 2))) = ''Under''
     \<and> compute_ou_result None (Some 20) (Some (Finite 43)) = ''''"
    using spread_and_ou_results
      [where h = 17 and a = 24 and j = 6 and t = "87 / 2" and line = "Some (Finite 43)"
         and home_score = None and away_score = "Some 20" and fh = "Finite 1" and s = NaN]
    by simp
  have 3: "compute_spread_result (Some 20) (Some 23) (Some (Finite 3)) = Inr ''Push''
     \<and> compute_ou_result (Some 20) (Some 23) (Some (Finite 43)) = ''Push''
     \<and> compute_spread_result (Some 24) (Some 20) None = Inr ''''
     \<and> compute_ou_result (Some 24) (Some 20) None = ''''"
    using spread_and_ou_results
      [where h = 20 and a = 23 and j = 6 and t = 43 and line = None
         and home_score = "Some 24" and away_score = "Some 20" and fh = "Finite 1" and s = NaN]
    by simp
  have f1: "float_of_int 1 = Inr (Finite 1)"
    using float_of_int_exact [of 1] by simp
  have 4: "compute_spread_result (Some 1) (Some 1) (Some NaN) = Inr ''Push''"
    using spread_and_ou_results
      [where h = 1 and a = 1 and j = 0 and t = 0 and line = None
         and home_score = None and away_score = None and fh = "Finite 1" and s = NaN]
      f1
    by simp
  have 5: "compute_spread_result (Some (2 ^ 1024)) (Some 20) (Some (Finite 3)) = Inl OverflowError"
    using spread_and_ou_results
      [where h = "2 ^ 1024" and a = 20 and j = 0 and t = 0 and line = None
         and home_score = None and away_score = None and fh = "Finite 1" and s = "Finite 3"]
    by simp
  from 1 2 3 4 5 show ?thesis by simp
qed

text \<open>
  Claim C3 as stated fails where the float sum is not the exact sum. With the scores 1
  and 1 and the line \<open>2 ^ -60\<close>, \<open>h + s\<close> is greater than \<open>a\<close> but the float sum is 1 and the
  result is \<open>Push\<close>; with the home score \<open>2 ^ 53 + 1\<close>, the away score \<open>2 ^ 53\<close> and the line
  0, the home score converts to \<open>2 ^ 53\<close> and the result is \<open>Push\<close> again.
\<close>

theorem spread_and_ou_results_counterexample:
  "(1 :: rat) + 1 / 2 ^ 60 > 1
   \<and> compute_spread_result (Some 1) (Some 1) (Some (Finite (1 / 2 ^ 60))) = Inr ''Push''
   \<and> (of_int (2 ^ 53 + 1) :: rat) + 0 > of_int (2 ^ 53)
   \<and> compute_spread_result (Some (2 ^ 53 + 1)) (Some (2 ^ 53)) (Some (Finite 0)) = Inr ''Push''"
proof -
  have f1: "float_of_int 1 = Inr (Finite 1)"
    using float_of_int_exact [of 1] by simp
  have "float_add (Finite 1) (Finite (1 / 2 ^ 60)) = Finite 1"
    by (simp only: float_add.simps round_double_tiny_sum)
  with spread_result_general [OF f1, of 1 "Finite (1 / 2 ^ 60)"]
  have a: "compute_spread_result (Some 1) (Some 1) (Some (Finite (1 / 2 ^ 60))) = Inr ''Push''"
    by (simp del: float_add.simps)
  have "round_double (of_int (2 ^ 53 + 1)) = Finite (2 ^ 53)"
    using round_double_odd by simp
  then have f2: "float_of_int (2 ^ 53 + 1) = Inr (Finite (2 ^ 53))"
    by (simp add: float_of_int_def)
  have "float_add (Finite (2 ^ 53)) (Finite 0) = Finite (2 ^ 53)"
    using round_double_even by simp
  with spread_result_general [OF f2, of "2 ^ 53" "Finite 0"]
  have b: "compute_spread_result (Some (2 ^ 53 + 1)) (Some (2 ^ 53)) (Some (Finite 0)) =
      Inr ''Push''"
    by (simp del: float_add.simps)
  from a b show ?thesis by simp
qed

section \<open>Properties of the betting reconciler\<close>

lemmas merge_cols =
  COL_DATE_def COL_HOME_def COL_HOME_SCORE_def COL_AWAY_SCORE_def
  NEW_COL_SPREAD_def NEW_COL_OU_def NEW_COL_SPREAD_RESULT_def NEW_COL_OU_RESULT_def







lemma merge_rows_length: "length (fst (merge_rows float_str lk rs)) = length rs"
  by (induction rs) (simp_all add: Let_def)

lemma merge_rows_nth:
  "i < length rs \<Longrightarrow> fst (merge_rows float_str lk rs) ! i = fst (merge_row float_str lk (rs ! i))"
proof (induction rs arbitrary: i)
  case Nil
  then show ?case by simp
next
  case (Cons r rs)
  then show ?case by (cases i) (simp_all add: Let_def)
qed

lemma merge_row_skipped:
  assumes "\<not> eligible r"
  shows "merge_row float_str lk r = (r, 0, 0)"
  using assms by (auto simp: eligible_def merge_row_def split: option.splits)

lemma merge_row_eligible:
  assumes "eligible r"
  shows "snd (snd (merge_row float_str lk r)) = 1"
  using assms by (auto simp: eligible_def merge_row_def Let_def split: option.splits)

lemma merge_rows_total:
  "snd (snd (merge_rows float_str lk rs)) = length (filter eligible rs)"
proof (induction rs)
  case Nil
  show ?case by simp
next
  case (Cons r rs)
  then show ?case
    by (cases "eligible r") (simp_all add: Let_def merge_row_skipped merge_row_eligible)
qed



text \<open>
  Claim C10. A row whose Date cell or Home Team cell is empty is skipped: the merge
  leaves the whole row as it was, its four betting fields included, and the row adds
  nothing to \<open>matched\<close> or to \<open>total\<close>; \<open>total\<close> counts exactly the rows that have both
  cells.
\<close>

theorem skipped_rows:
  assumes "r (COL_DATE + 1) = None \<or> r (COL_HOME + 1) = None"
  shows "merge_row float_str lk r = (r, 0, 0)
    \<and> betting_fields (fst (merge_row float_str lk r)) = betting_fields r
    \<and> (i < length rs \<and> rs ! i = r \<longrightarrow> fst (merge_rows float_str lk rs) ! i = r)
    \<and> snd (snd (merge_rows float_str lk (r # rs))) = snd (snd (merge_rows float_str lk rs))
    \<and> snd (snd (merge_rows float_str lk rs)) = length (filter eligible rs)"
proof -
  from assms have ne: "\<not> eligible r" by (auto simp: eligible_def)
  show ?thesis
    by (simp add: merge_row_skipped [OF ne] merge_rows_nth merge_rows_total Let_def ne)
qed

theorem skipped_rows_witness:
  "undated_row (COL_DATE + 1) = None
   \<and> betting_fields (fst (merge_row (\<lambda>q. []) lines_2020 undated_row)) =
       [Some (FloatV (- 3)), Some (FloatV (87 / 2)), Some (StrV ''Lost''), Some (StrV ''Under'')]
   \<and> snd (snd (merge_rows (\<lambda>q. []) lines_2020 [cowboys_row, stale_row, undated_row])) = 2"
proof -
  have u: "undated_row (COL_DATE + 1) = None"
    by (simp add: undated_row_def COL_DATE_def)
  have b: "betting_fields undated_row =
      [Some (FloatV (- 3)), Some (FloatV (87 / 2)), Some (StrV ''Lost''), Some (StrV ''Under'')]"
    by (simp add: betting_fields_def undated_row_def merge_cols)
  have e: "eligible cowboys_row" "eligible stale_row" "\<not> eligible undated_row"
    by (simp_all add: eligible_def cowboys_row_def stale_row_def undated_row_def merge_cols)
  from skipped_rows [of undated_row "\<lambda>q. []" lines_2020 0 "[cowboys_row, stale_row, undated_row]"]
    u b e
  show ?thesis by (simp del: merge_rows.simps)
qed

text \<open>
  Claim C6 does not hold of the code. The merge writes no column other than the four
  betting columns (\<open>merge_row_frame\<close>), but on a lookup miss it clears nothing: the loop
  over the four columns calls \<open>ws.cell\<close> with \<open>value=None\<close>, which assigns no value, so
  the row keeps the betting fields it had (\<open>merge_row_miss\<close>). Here a game that the
  lookup does not have is counted as eligible and not matched, and keeps the spread, the
  total and the two results that an earlier merge left.
\<close>

theorem miss_keeps_stale_fields:
  "lines_2020 (''2020-09-13'', ''Green Bay Packers'') = None
   \<and> snd (merge_row (\<lambda>q. []) lines_2020 stale_row) = (0, 1)
   \<and> betting_fields (fst (merge_row (\<lambda>q. []) lines_2020 stale_row)) =
       [Some (FloatV (- 3)), Some (FloatV (87 / 2)), Some (StrV ''Covered''), Some (StrV ''Over'')]"
  by code_simp

section \<open>Properties of the web asset\<close>

lemma dedup_unseen: "x \<in> set (dedup seen gs) \<Longrightarrow> game_key x \<notin> seen"
  by (induction gs arbitrary: seen) (auto split: if_splits)

lemma dedup_subset: "set (dedup seen gs) \<subseteq> set gs"
  by (induction gs arbitrary: seen) auto

lemma dedup_keys: "game_key ` set (dedup seen gs) = game_key ` set gs - seen"
  by (induction gs arbitrary: seen) auto

lemma dedup_distinct: "distinct (map game_key (dedup seen gs))"
proof (induction gs arbitrary: seen)
  case Nil
  show ?case by simp
next
  case (Cons g gs)
  have "game_key x \<noteq> game_key g" if "x \<in> set (dedup (insert (game_key g) seen) gs)" for x
    using dedup_unseen [OF that] by simp
  then have "game_key g \<notin> game_key ` set (dedup (insert (game_key g) seen) gs)"
    by force
  with Cons show ?case by simp
qed

lemma dedup_first:
  "x \<in> set (dedup seen gs) \<Longrightarrow> find (\<lambda>y. game_key y = game_key x) gs = Some x"
proof (induction gs arbitrary: seen)
  case Nil
  then show ?case by simp
next
  case (Cons g gs)
  show ?case
  proof (cases "game_key g \<in> seen")
    case True
    with Cons.prems have x: "x \<in> set (dedup seen gs)" by simp
    then have "game_key x \<notin> seen" by (rule dedup_unseen)
    with True have "game_key g \<noteq> game_key x" by auto
    with Cons.IH [OF x] show ?thesis by simp
  next
    case False
    with Cons.prems have "x = g \<or> x \<in> set (dedup (insert (game_key g) seen) gs)" by simp
    then show ?thesis
    proof
      assume "x = g"
      then show ?thesis by simp
    next
      assume x: "x \<in> set (dedup (insert (game_key g) seen) gs)"
      then have "game_key x \<notin> insert (game_key g) seen" by (rule dedup_unseen)
      then have "game_key g \<noteq> game_key x" by auto
      with Cons.IH [OF x] show ?thesis by simp
    qed
  qed
qed

text \<open>
  Claim C9. The serialized sequence is sorted by (season, date); no two of its records
  share the key (season, date, home team, away team); every key of the input occurs in
  it; and each of its records is the first record of the input with that key.
\<close>

theorem dedup_and_sort:
  "sorted (map (\<lambda>g. (g_s g, g_dt g)) (unique_games games))
   \<and> distinct (map game_key (unique_games games))
   \<and> game_key ` set (unique_games games) = game_key ` set games
   \<and> (\<forall>x \<in> set (unique_games games). find (\<lambda>y. game_key y = game_key x) games = Some x)"
proof -
  have m: "mset (unique_games games) = mset (dedup {} games)"
    by (simp add: unique_games_def sort_games_def)
  then have s: "set (unique_games games) = set (dedup {} games)"
    by (rule mset_eq_setD)
  have "mset (map game_key (unique_games games)) = mset (map game_key (dedup {} games))"
    using m by simp
  then have d: "distinct (map game_key (unique_games games))"
    using dedup_distinct [of "{}" games] by (metis mset_eq_imp_distinct_iff)
  have k: "game_key ` set (unique_games games) = game_key ` set games"
    using dedup_keys [of "{}" games] s by simp
  have f: "\<forall>x \<in> set (unique_games games). find (\<lambda>y. game_key y = game_key x) games = Some x"
    using dedup_first [of _ "{}" games] s by auto
  have "sorted (map (\<lambda>g. (g_s g, g_dt g)) (unique_games games))"
    by (simp add: unique_games_def sort_games_def)
  with d k f show ?thesis by simp
qed


theorem dedup_and_sort_witness:
  "unique_games [opener, older_game, opener_again] = [older_game, opener]"
proof -
  have "unique_games [opener, older_game, opener_again] = [older_game, opener]"
    by code_simp
  with dedup_and_sort [of "[opener, older_game, opener_again]"] show ?thesis by simp
qed

end
